theory Spec2Isabelle
  imports Main
begin

section \<open>Go strings\<close>

text \<open>
  A Go \<open>string\<close> is a sequence of bytes; it is modelled as \<^typ>\<open>string\<close>, a list of
  8-bit characters. The functions of package \<open>strings\<close> that \<open>openid.go\<close> calls are
  written out for the arguments the source passes (a one-byte separator).
\<close>

definition newline :: char where
  "newline = CHR 0x0A"

text \<open>\<open>strings.ContainsRune(s, r)\<close> for an ASCII rune \<open>r\<close>.\<close>

definition ContainsRune :: "string \<Rightarrow> char \<Rightarrow> bool" where
  "ContainsRune s r = (r \<in> set s)"

text \<open>
  \<open>strings.Split(s, sep)\<close> for a one-byte separator: the pieces between the separators,
  always at least one piece.
\<close>

fun Split :: "string \<Rightarrow> char \<Rightarrow> string list" where
  "Split [] sep = [[]]"
| "Split (c # cs) sep =
     (if c = sep then [] # Split cs sep
      else (case Split cs sep of
              [] \<Rightarrow> [[c]]
            | l # ls \<Rightarrow> (c # l) # ls))"

text \<open>
  \<open>strings.SplitN(s, sep, 2)\<close> for a one-byte separator: the text before the first
  separator and everything after it, or \<open>s\<close> alone when there is no separator.
\<close>

definition SplitN2 :: "string \<Rightarrow> char \<Rightarrow> string list" where
  "SplitN2 s sep =
     (case dropWhile (\<lambda>c. c \<noteq> sep) s of
        [] \<Rightarrow> [s]
      | _ # rest \<Rightarrow> [takeWhile (\<lambda>c. c \<noteq> sep) s, rest])"

text \<open>\<open>strings.HasPrefix(s, prefix)\<close>.\<close>

definition HasPrefix :: "string \<Rightarrow> string \<Rightarrow> bool" where
  "HasPrefix s p = (take (length p) s = p)"

text \<open>\<open>strings.Index(s, sep)\<close> for a one-byte separator: \<open>-1\<close> when it is absent.\<close>

fun Index :: "string \<Rightarrow> char \<Rightarrow> int" where
  "Index [] sep = - 1"
| "Index (c # cs) sep =
     (if c = sep then 0
      else (let i = Index cs sep in if i = - 1 then - 1 else i + 1))"

section \<open>keyValueForm\<close>

text \<open>
  The body of the loop of \<open>keyValueForm\<close> (lines 54 to 57): the map \<open>o\<close> after one line
  \<open>v\<close>. The guard makes \<open>split[0]\<close> and \<open>split[1]\<close> in range (lemma \<open>SplitN2_length\<close>).
\<close>

definition keyValueForm_line :: "(string \<rightharpoonup> string) \<Rightarrow> string \<Rightarrow> (string \<rightharpoonup> string)" where
  "keyValueForm_line o' v =
     (if ContainsRune v (CHR '':'') then
        (let split = SplitN2 v (CHR '':'') in o'(split ! 0 \<mapsto> split ! 1))
      else o')"

definition keyValueForm :: "string \<Rightarrow> (string \<rightharpoonup> string)" where
  "keyValueForm corpus = foldl keyValueForm_line Map.empty (Split corpus newline)"

section \<open>Errors and exits\<close>

text \<open>
  \<open>validateError\<close> is the package's own error type (lines 119 to 126). Every other error
  value the package returns is made elsewhere: by \<open>errors.New\<close> at line 217, or by
  \<open>net/http\<close>, \<open>ioutil\<close> and the HTML parser, whose message is kept.
\<close>

datatype validateError = NO_OP_ENDPOINT | DIFFERING_ENDPOINT | NS_INCORRECT | INCORRECT_MODE

datatype error = Validate_error validateError | errors_New string | Foreign string

text \<open>
  A call either returns its results or panics (a run-time error of Go: an index out of
  range, a nil pointer dereference); a panic is not an \<open>error\<close> result.
\<close>

datatype 'a exit = Panic string | Return 'a

section \<open>url.Values\<close>

text \<open>
  \<open>url.Values\<close> is \<open>map[string][]string\<close>. It is represented by an association list,
  read through \<^const>\<open>map_of\<close>, so that \<open>Encode\<close> can enumerate the keys. A Go map is a
  reference: a function that stores into its parameter stores into the caller's map, so
  a function that does so returns the map as it is afterwards.
\<close>

type_synonym Values = "(string \<times> string list) list"

text \<open>\<open>Values.Get\<close>: the first value of the key, or the empty string.\<close>

definition Get :: "Values \<Rightarrow> string \<Rightarrow> string" where
  "Get v key =
     (case map_of v key of
        None \<Rightarrow> []
      | Some vs \<Rightarrow> (case vs of [] \<Rightarrow> [] | x # _ \<Rightarrow> x))"

text \<open>\<open>Values.Set\<close>: \<open>v[key] = []string{value}\<close>.\<close>

fun Set :: "Values \<Rightarrow> string \<Rightarrow> string \<Rightarrow> Values" where
  "Set [] key val = [(key, [val])]"
| "Set ((k, vs) # rest) key val =
     (if k = key then (key, [val]) # rest else (k, vs) # Set rest key val)"

text \<open>
  \<open>url.QueryEscape\<close> of the standard library: letters, digits and \<open>- _ . ~\<close> stay, a
  space becomes \<open>+\<close>, every other byte becomes \<open>%\<close> and two upper-case hexadecimal digits.
\<close>

definition shouldEscape :: "char \<Rightarrow> bool" where
  "shouldEscape c =
     (let n = (of_char c :: nat) in
      \<not> ((97 \<le> n \<and> n \<le> 122) \<or> (65 \<le> n \<and> n \<le> 90) \<or> (48 \<le> n \<and> n \<le> 57)
         \<or> c = CHR ''-'' \<or> c = CHR ''_'' \<or> c = CHR ''.'' \<or> c = CHR ''~''))"

definition hexdigit :: "nat \<Rightarrow> char" where
  "hexdigit n = ''0123456789ABCDEF'' ! (n mod 16)"

fun QueryEscape :: "string \<Rightarrow> string" where
  "QueryEscape [] = []"
| "QueryEscape (c # cs) =
     (if shouldEscape c then
        (if c = CHR '' '' then CHR ''+'' # QueryEscape cs
         else CHR ''%'' # hexdigit (of_char c div 16) # hexdigit (of_char c mod 16)
              # QueryEscape cs)
      else c # QueryEscape cs)"

text \<open>
  \<open>url.QueryUnescape\<close> of the standard library, the decoding that a receiver of the query
  applies: \<open>%\<close> and two hexadecimal digits give one byte, \<open>+\<close> gives a space, every other
  byte stands for itself; \<open>None\<close> is its error for a \<open>%\<close> that two hexadecimal digits do
  not follow.
\<close>

definition unhex :: "char \<Rightarrow> nat option" where
  "unhex c =
     (let n = (of_char c :: nat) in
      if 48 \<le> n \<and> n \<le> 57 then Some (n - 48)
      else if 97 \<le> n \<and> n \<le> 102 then Some (n - 97 + 10)
      else if 65 \<le> n \<and> n \<le> 70 then Some (n - 65 + 10)
      else None)"

fun QueryUnescape :: "string \<Rightarrow> string option" where
  "QueryUnescape [] = Some []"
| "QueryUnescape (c # cs) =
     (if c = CHR ''%'' then
        (case cs of
           a # b # rest \<Rightarrow>
             (case unhex a of
                None \<Rightarrow> None
              | Some x \<Rightarrow>
                  (case unhex b of
                     None \<Rightarrow> None
                   | Some y \<Rightarrow> map_option ((#) (char_of (16 * x + y))) (QueryUnescape rest)))
         | _ \<Rightarrow> None)
      else if c = CHR ''+'' then map_option ((#) (CHR '' '')) (QueryUnescape cs)
      else map_option ((#) c) (QueryUnescape cs))"

text \<open>\<open>sort.Strings\<close>: ascending byte-wise order.\<close>

fun string_less :: "string \<Rightarrow> string \<Rightarrow> bool" where
  "string_less _ [] = False"
| "string_less [] (_ # _) = True"
| "string_less (a # as) (b # bs) =
     ((of_char a :: nat) < of_char b \<or> (a = b \<and> string_less as bs))"

fun insert_String :: "string \<Rightarrow> string list \<Rightarrow> string list" where
  "insert_String k [] = [k]"
| "insert_String k (x # xs) =
     (if string_less x k then x # insert_String k xs else k # x # xs)"

definition sort_Strings :: "string list \<Rightarrow> string list" where
  "sort_Strings ks = foldr insert_String ks []"

text \<open>\<open>strings.Join\<close>.\<close>

fun Join :: "string list \<Rightarrow> string \<Rightarrow> string" where
  "Join [] sep = []"
| "Join [x] sep = x"
| "Join (x # y # ys) sep = x @ sep @ Join (y # ys) sep"

text \<open>
  \<open>Values.Encode\<close> of the standard library: the keys in ascending order, and for each
  value of a key \<open>QueryEscape(key) = QueryEscape(value)\<close>, joined by \<open>&\<close>.
\<close>

definition Encode :: "Values \<Rightarrow> string" where
  "Encode v =
     Join (concat (map (\<lambda>k. map (\<lambda>x. QueryEscape k @ ''='' @ QueryEscape x)
                                (case map_of v k of None \<Rightarrow> [] | Some vs \<Rightarrow> vs))
                       (sort_Strings (remdups (map fst v)))))
          ''&''"

section \<open>HTTP responses\<close>

text \<open>
  A response body is an \<open>io.ReadCloser\<close>: \<open>stream\<close> tells one body from another, and
  \<open>ReadAll\<close> is what \<open>ioutil.ReadAll\<close> gives on it. Of a response the package reads the
  headers \<open>Content-Type\<close> and \<open>X-Xrds-Location\<close> (\<open>Header.Get\<close> gives the empty string for
  a header that is absent) and the body.
\<close>

record ReadCloser =
  stream :: nat
  ReadAll :: "error + string"

record Response =
  Content_Type :: string
  X_Xrds_Location :: string
  Body :: ReadCloser

section \<open>Validate\<close>

text \<open>
  \<open>http.Post\<close> is the parameter \<open>http_Post url contentType body\<close>; it gives the pair
  \<open>(resp, err)\<close>, \<open>resp\<close> being \<open>None\<close> for a nil pointer. A run of \<open>Validate\<close> gives how the
  call ends, the caller's map afterwards, the POST requests issued in order, and the
  bodies closed.
\<close>

type_synonym Post = "string \<Rightarrow> string \<Rightarrow> string \<Rightarrow> Response option \<times> error option"

record ValidateRun =
  ended :: "(bool \<times> string \<times> error option) exit"
  values_after :: Values
  posts :: "(string \<times> string \<times> string) list"
  bodies_closed :: "ReadCloser list"

text \<open>\<open>kVs[key]\<close> on a \<open>map[string]string\<close>: the empty string for a missing key.\<close>

definition index_map :: "(string \<rightharpoonup> string) \<Rightarrow> string \<Rightarrow> string" where
  "index_map m key = (case m key of None \<Rightarrow> [] | Some x \<Rightarrow> x)"

text \<open>
  Lines 169 to 184: what \<open>Validate\<close> returns once the POST has given a response and no
  error. \<open>grant\<close> and \<open>id\<close> are named results and stay \<open>false\<close> and empty on the error
  returns.
\<close>

definition Validate_response :: "Values \<Rightarrow> Response \<Rightarrow> bool \<times> string \<times> error option" where
  "Validate_response values resp =
     (case ReadAll (Body resp) of
        Inl err \<Rightarrow> (False, [], Some err)
      | Inr body \<Rightarrow>
          (let kVs = keyValueForm body in
           if index_map kVs ''ns'' \<noteq> ''http://specs.openid.net/auth/2.0''
           then (False, [], Some (Validate_error NS_INCORRECT))
           else (index_map kVs ''is_valid'' = ''true'',
                 Get values ''openid.claimed_id'', None)))"

text \<open>
  \<open>Validate\<close> (lines 149 to 185). Line 160 stores into \<open>values\<close>, the caller's map.
  Line 164, \<open>defer resp.Body.Close()\<close>, reads \<open>resp.Body\<close> when it is executed, before
  \<open>err\<close> is looked at: with a nil \<open>resp\<close> it panics.
\<close>

definition Validate :: "Post \<Rightarrow> Values \<Rightarrow> ValidateRun" where
  "Validate http_Post values =
     (let endpoint = Get values ''openid.op_endpoint'' in
      if endpoint = [] then
        \<lparr>ended = Return (False, [], Some (Validate_error NO_OP_ENDPOINT)),
         values_after = values, posts = [], bodies_closed = []\<rparr>
      else if Get values ''openid.mode'' \<noteq> ''id_res'' then
        \<lparr>ended = Return (False, [], Some (Validate_error INCORRECT_MODE)),
         values_after = values, posts = [], bodies_closed = []\<rparr>
      else
        (let values' = Set values ''openid.mode'' ''check_authentication'';
             body = Encode values';
             (resp, err) = http_Post endpoint ''application/x-www-form-urlencoded'' body
         in case resp of
              None \<Rightarrow>
                \<lparr>ended = Panic ''invalid memory address or nil pointer dereference'',
                 values_after = values',
                 posts = [(endpoint, ''application/x-www-form-urlencoded'', body)],
                 bodies_closed = []\<rparr>
            | Some r \<Rightarrow>
                \<lparr>ended = Return (case err of
                                   Some e \<Rightarrow> (False, [], Some e)
                                 | None \<Rightarrow> Validate_response values' r),
                 values_after = values',
                 posts = [(endpoint, ''application/x-www-form-urlencoded'', body)],
                 bodies_closed = [Body r]\<rparr>))"

section \<open>The world of discovery\<close>

text \<open>
  An HTML tree of the parser package \<open>h5\<close>: of a node the package reads the attributes.
\<close>

datatype Node = Node (Data: string) (Attr: "(string \<times> string) list") (Children: "Node list")

text \<open>One \<open>Service\<close> element of the anonymous struct of \<open>getIdentifiers\<close> (lines 245 to 249).\<close>

record Service =
  Type :: string
  URI :: string
  Priority :: nat

text \<open>
  What lies outside the package is a parameter:
  \<^item> \<open>NewRequest url\<close>: the error of \<open>http.NewRequest("GET", url, nil)\<close>, if any;
  \<^item> \<open>Do url\<close>: the pair \<open>(resp, err)\<close> of \<open>new(http.Client).Do(req)\<close>;
  \<^item> \<open>Parse body\<close>: the error of \<open>p.Parse()\<close> or the tree \<open>p.Tree()\<close> of the HTML parser
    reading \<open>body\<close>;
  \<^item> \<open>Apply root\<close>: the nodes \<open>yadisGetter.Apply(root)\<close> selects;
  \<^item> \<open>Unmarshal doc\<close>: the \<open>Service\<close> entries \<open>xml.Unmarshal\<close> has stored in
    \<open>xrdsDocument.XRD.Service\<close> when it returns, and the error it returns.
\<close>

record World =
  NewRequest :: "string \<Rightarrow> error option"
  Do :: "string \<Rightarrow> Response option \<times> error option"
  Parse :: "ReadCloser \<Rightarrow> error + Node"
  Apply :: "Node \<Rightarrow> Node list"
  Unmarshal :: "string \<Rightarrow> Service list \<times> error option"

text \<open>
  The effects of a run on the network: the URLs requested with GET, the response bodies
  obtained, and the bodies closed, each in order.
\<close>

record Net =
  requested :: "string list"
  opened :: "ReadCloser list"
  closed :: "ReadCloser list"

definition idle :: Net where
  "idle = \<lparr>requested = [], opened = [], closed = []\<rparr>"

section \<open>discover\<close>

text \<open>The loop of \<open>discoverFromHTMLNode\<close> over \<open>elm.Attr\<close> (lines 226 to 230).\<close>

fun content_of :: "(string \<times> string) list \<Rightarrow> string \<times> bool" where
  "content_of [] = ([], False)"
| "content_of ((name, val) # attrs) =
     (if name = ''content'' then (val, True) else content_of attrs)"

definition discoverFromHTMLNode :: "(Node \<Rightarrow> Node list) \<Rightarrow> Node \<Rightarrow> string \<times> bool" where
  "discoverFromHTMLNode yadisGetter root =
     (case yadisGetter root of
        [] \<Rightarrow> ([], False)
      | elm # _ \<Rightarrow> content_of (Attr elm))"

text \<open>
  \<open>discover\<close> (lines 187 to 219) calls itself with no bound on the depth, so a run need
  not end: \<open>None\<close> is a run that does not return. The function has no call of \<open>Close\<close>.
\<close>

partial_function (option) discover ::
  "World \<Rightarrow> string \<Rightarrow> Net \<Rightarrow> ((ReadCloser option \<times> error option) exit \<times> Net) option" where
  "discover w identifier net =
     (case NewRequest w identifier of
        Some err \<Rightarrow> Some (Return (None, Some err), net)
      | None \<Rightarrow>
          (let net1 = net\<lparr>requested := requested net @ [identifier]\<rparr> in
           case snd (Do w identifier) of
             Some err \<Rightarrow> Some (Return (None, Some err), net1)
           | None \<Rightarrow>
               (case fst (Do w identifier) of
                  None \<Rightarrow>
                    Some (Panic ''invalid memory address or nil pointer dereference'', net1)
                | Some resp \<Rightarrow>
                    (let net2 = net1\<lparr>opened := opened net1 @ [Body resp]\<rparr>;
                         contentType = Content_Type resp;
                         h = X_Xrds_Location resp
                     in if HasPrefix contentType ''application/xrds+xml'' then
                          Some (Return (Some (Body resp), None), net2)
                        else if h \<noteq> [] then discover w h net2
                        else if HasPrefix contentType ''text/html'' then
                          (case Parse w (Body resp) of
                             Inl e \<Rightarrow> Some (Return (None, Some e), net2)
                           | Inr root \<Rightarrow>
                               (if snd (discoverFromHTMLNode (Apply w) root) then
                                  discover w (fst (discoverFromHTMLNode (Apply w) root)) net2
                                else
                                  Some (Return (Some (Body resp),
                                          Some (errors_New ''Could not locate Yadis document!'')),
                                        net2)))
                        else
                          Some (Return (Some (Body resp),
                                  Some (errors_New ''Could not locate Yadis document!'')),
                                net2)))))"

section \<open>getIdentifiers\<close>

text \<open>The body of the loop over \<open>xrdsDocument.XRD.Service\<close> (lines 255 to 259).\<close>

definition getIdentifiers_service :: "string \<times> string \<Rightarrow> Service \<Rightarrow> string \<times> string" where
  "getIdentifiers_service acc v =
     (case acc of (OP, Claimed) \<Rightarrow>
        if HasPrefix (Type v) ''http://specs.openid.net/auth/2.0/server'' then (URI v, Claimed)
        else if HasPrefix (Type v) ''http://specs.openid.net/auth/2.0/signon'' then (OP, URI v)
        else (OP, Claimed))"

text \<open>
  \<open>getIdentifiers\<close> (lines 235 to 263). The deferred \<open>xrds.Close()\<close> runs on both returns.
  The value of \<open>xml.Unmarshal\<close> is dropped at line 253: the loop runs over whatever
  entries the decoder has stored.
\<close>

definition getIdentifiers ::
  "World \<Rightarrow> ReadCloser \<Rightarrow> Net \<Rightarrow> (string \<times> string \<times> error option) \<times> Net" where
  "getIdentifiers w xrds net =
     (let net' = net\<lparr>closed := closed net @ [xrds]\<rparr> in
      case ReadAll xrds of
        Inl e \<Rightarrow> (([], [], Some e), net')
      | Inr xmlDoc \<Rightarrow>
          (case foldl getIdentifiers_service ([], []) (fst (Unmarshal w xmlDoc)) of
             (OP, Claimed) \<Rightarrow> ((OP, Claimed, None), net')))"

section \<open>RedirectURI\<close>

definition xri_global_context_symbol :: string where
  "xri_global_context_symbol = ''=@+$!(''"

text \<open>\<open>runeIs\<close> (lines 265 to 272); \<open>b\<close> is ASCII, so its runes are its bytes.\<close>

fun runeIs :: "char \<Rightarrow> string \<Rightarrow> bool" where
  "runeIs a [] = False"
| "runeIs a (v # b) = (if v = a then True else runeIs a b)"

text \<open>
  Lines 73 to 89 of \<open>RedirectURI\<close>: the identifier that is given to \<open>discover\<close>.
  \<open>identifier[0]\<close> on the empty string is an index out of range, a run-time panic;
  \<open>identifier[index:]\<close> is the string from position \<open>index\<close> on.
\<close>

definition RedirectURI_identifier :: "string \<Rightarrow> string exit" where
  "RedirectURI_identifier identifier =
     (let identifier1 = (if HasPrefix identifier ''xri://'' then drop 6 identifier
                         else identifier)
      in case identifier1 of
           [] \<Rightarrow> Panic ''index out of range''
         | c # _ \<Rightarrow>
             (let identifier2 =
                    (if runeIs c xri_global_context_symbol then ''http://xri.net/'' @ identifier1
                     else if \<not> HasPrefix identifier1 ''http://''
                             \<and> \<not> HasPrefix identifier1 ''https://''
                          then ''http://'' @ identifier1
                     else identifier1);
                  index = Index identifier2 (CHR ''#'')
              in Return (if index \<noteq> - 1 then drop (nat index) identifier2 else identifier2)))"

text \<open>
  Lines 101 to 116 of \<open>RedirectURI\<close>: the URL made of what \<open>getIdentifiers\<close> gave.
  \<open>strings.Contains(endpoint, "?")\<close> asks for one byte.
\<close>

definition RedirectURI_url :: "string \<Rightarrow> string \<Rightarrow> string \<Rightarrow> string \<Rightarrow> string" where
  "RedirectURI_url endpoint Claimed realm returnPoint =
     (let Claimed' = (if Claimed = [] then ''http://specs.openid.net/auth/2.0/identifier_select''
                      else Claimed);
          endpoint' = (if \<not> ContainsRune endpoint (CHR ''?'') then endpoint @ ''?''
                       else endpoint @ ''&'')
      in endpoint' @
         Encode [(''openid.claimed_id'', [Claimed']),
                 (''openid.identity'', [Claimed']),
                 (''openid.realm'', [realm]),
                 (''openid.return_to'', [realm @ returnPoint]),
                 (''openid.mode'', [''checkid_setup'']),
                 (''openid.ns'', [''http://specs.openid.net/auth/2.0''])])"

text \<open>
  \<open>RedirectURI\<close> (lines 71 to 117). \<open>discover\<close> gives a body whenever it gives no error;
  a nil body would panic in \<open>getIdentifiers\<close> at the deferred \<open>Close\<close>.
\<close>

definition RedirectURI ::
  "World \<Rightarrow> string \<Rightarrow> string \<Rightarrow> string \<Rightarrow> Net \<Rightarrow> ((string \<times> error option) exit \<times> Net) option" where
  "RedirectURI w identifier realm returnPoint net =
     (case RedirectURI_identifier identifier of
        Panic msg \<Rightarrow> Some (Panic msg, net)
      | Return identifier' \<Rightarrow>
          (case discover w identifier' net of
             None \<Rightarrow> None
           | Some (Panic msg, net1) \<Rightarrow> Some (Panic msg, net1)
           | Some (Return (rdClr, Some err), net1) \<Rightarrow> Some (Return ([], Some err), net1)
           | Some (Return (None, None), net1) \<Rightarrow>
               Some (Panic ''invalid memory address or nil pointer dereference'', net1)
           | Some (Return (Some xrds, None), net1) \<Rightarrow>
               (case getIdentifiers w xrds net1 of
                  ((endpoint, Claimed, Some err), net2) \<Rightarrow> Some (Return ([], Some err), net2)
                | ((endpoint, Claimed, None), net2) \<Rightarrow>
                    Some (Return (RedirectURI_url endpoint Claimed realm returnPoint, None),
                          net2))))"

section \<open>Example inputs\<close>

text \<open>An assertion as an operator sends it back, and two that fail the checks.\<close>

definition assertion :: Values where
  "assertion =
     [(''openid.op_endpoint'', [''https://op.example/auth'']),
      (''openid.mode'', [''id_res'']),
      (''openid.claimed_id'', [''https://user.example/id''])]"

definition assertion_no_endpoint :: Values where
  "assertion_no_endpoint =
     [(''openid.mode'', [''id_res'']), (''openid.claimed_id'', [''https://user.example/id''])]"

definition assertion_cancel :: Values where
  "assertion_cancel =
     [(''openid.op_endpoint'', [''https://op.example/auth'']), (''openid.mode'', [''cancel''])]"

text \<open>An operator that confirms every assertion, and one that cannot be reached.\<close>

definition confirmation :: string where
  "confirmation =
     ''ns:http://specs.openid.net/auth/2.0'' @ [newline] @ ''is_valid:true'' @ [newline]"

definition reply :: "string \<Rightarrow> Response" where
  "reply text =
     \<lparr>Content_Type = ''text/plain'', X_Xrds_Location = [],
      Body = \<lparr>stream = 0, ReadAll = Inr text\<rparr>\<rparr>"

definition operator_valid :: Post where
  "operator_valid url contentType body = (Some (reply confirmation), None)"

text \<open>An operator that answers in the namespace of OpenID 1.1.\<close>

definition old_confirmation :: string where
  "old_confirmation =
     ''ns:http://openid.net/signon/1.1'' @ [newline] @ ''is_valid:true'' @ [newline]"

definition operator_old :: Post where
  "operator_old url contentType body = (Some (reply old_confirmation), None)"

definition operator_unreachable :: Post where
  "operator_unreachable url contentType body =
     (None, Some (Foreign ''dial tcp: connection refused''))"

text \<open>
  Discovery documents: one with a single service, the same cut off inside the second
  \<open>XRD\<close> tag, and one with two services of the same role and different priorities.
\<close>

definition xrds_document :: string where
  "xrds_document =
     ''<XRDS><XRD><Service><Type>http://specs.openid.net/auth/2.0/server</Type>''
     @ ''<URI>https://op.example/auth</URI></Service></XRD></XRDS>''"

definition truncated_document :: string where
  "truncated_document =
     ''<XRDS><XRD><Service><Type>http://specs.openid.net/auth/2.0/server</Type>''
     @ ''<URI>https://op.example/auth</URI></Service><XRD''"

definition priority_document :: string where
  "priority_document =
     ''<XRDS><XRD><Service priority='' @ [CHR 0x22] @ ''10'' @ [CHR 0x22]
     @ ''><Type>http://specs.openid.net/auth/2.0/server</Type>''
     @ ''<URI>https://op1.example/auth</URI></Service>''
     @ ''<Service priority='' @ [CHR 0x22] @ ''20'' @ [CHR 0x22]
     @ ''><Type>http://specs.openid.net/auth/2.0/server</Type>''
     @ ''<URI>https://op2.example/auth</URI></Service></XRD></XRDS>''"

text \<open>
  A world in which \<open>http://user.example/\<close> answers with an \<open>X-Xrds-Location\<close> header
  that points to the discovery document. The decoder stores each \<open>Service\<close> element
  when its end tag is read, so that the element read before a syntax error stays
  stored.
\<close>

definition example_NewRequest :: "string \<Rightarrow> error option" where
  "example_NewRequest url = None"

definition example_Do :: "string \<Rightarrow> Response option \<times> error option" where
  "example_Do url =
     (if url = ''http://user.example/'' then
        (Some \<lparr>Content_Type = ''text/plain'', X_Xrds_Location = ''http://user.example/xrds'',
               Body = \<lparr>stream = 0, ReadAll = Inr []\<rparr>\<rparr>, None)
      else if url = ''http://user.example/xrds'' then
        (Some \<lparr>Content_Type = ''application/xrds+xml'', X_Xrds_Location = [],
               Body = \<lparr>stream = 1, ReadAll = Inr xrds_document\<rparr>\<rparr>, None)
      else (None, Some (Foreign ''unsupported protocol scheme'')))"

definition example_Parse :: "ReadCloser \<Rightarrow> error + Node" where
  "example_Parse body = Inr (Node ''html'' [] [])"

definition example_Apply :: "Node \<Rightarrow> Node list" where
  "example_Apply root = []"

definition example_Unmarshal :: "string \<Rightarrow> Service list \<times> error option" where
  "example_Unmarshal doc =
     (if doc = xrds_document then
        ([\<lparr>Type = ''http://specs.openid.net/auth/2.0/server'',
           URI = ''https://op.example/auth'', Priority = 0\<rparr>], None)
      else if doc = truncated_document then
        ([\<lparr>Type = ''http://specs.openid.net/auth/2.0/server'',
           URI = ''https://op.example/auth'', Priority = 0\<rparr>],
         Some (Foreign ''XML syntax error: unexpected EOF''))
      else if doc = priority_document then
        ([\<lparr>Type = ''http://specs.openid.net/auth/2.0/server'',
           URI = ''https://op1.example/auth'', Priority = 10\<rparr>,
          \<lparr>Type = ''http://specs.openid.net/auth/2.0/server'',
           URI = ''https://op2.example/auth'', Priority = 20\<rparr>], None)
      else ([], Some (Foreign ''EOF'')))"

definition example_world :: World where
  "example_world =
     \<lparr>NewRequest = example_NewRequest, Do = example_Do, Parse = example_Parse,
      Apply = example_Apply, Unmarshal = example_Unmarshal\<rparr>"

text \<open>The same world with a decoder that reads every priority as \<open>0\<close>.\<close>

definition flat_Unmarshal :: "string \<Rightarrow> Service list \<times> error option" where
  "flat_Unmarshal doc =
     (map (Priority_update (\<lambda>p. 0)) (fst (example_Unmarshal doc)), snd (example_Unmarshal doc))"

definition flat_world :: World where
  "flat_world =
     \<lparr>NewRequest = example_NewRequest, Do = example_Do, Parse = example_Parse,
      Apply = example_Apply, Unmarshal = flat_Unmarshal\<rparr>"

text \<open>
  A world in which \<open>https://id.example/\<close> answers with a discovery document that names
  an operator endpoint with a query of its own and a claimed identity.
\<close>

definition signon_document :: string where
  "signon_document =
     ''<XRDS><XRD><Service><Type>http://specs.openid.net/auth/2.0/server</Type>''
     @ ''<URI>https://op.example/auth?foo=bar</URI></Service>''
     @ ''<Service><Type>http://specs.openid.net/auth/2.0/signon</Type>''
     @ ''<URI>https://user.example/id</URI></Service></XRD></XRDS>''"

definition signon_Do :: "string \<Rightarrow> Response option \<times> error option" where
  "signon_Do url =
     (if url = ''https://id.example/'' then
        (Some \<lparr>Content_Type = ''application/xrds+xml; charset=utf-8'', X_Xrds_Location = [],
               Body = \<lparr>stream = 2, ReadAll = Inr signon_document\<rparr>\<rparr>, None)
      else (None, Some (Foreign ''no such host'')))"

definition signon_Unmarshal :: "string \<Rightarrow> Service list \<times> error option" where
  "signon_Unmarshal doc =
     (if doc = signon_document then
        ([\<lparr>Type = ''http://specs.openid.net/auth/2.0/server'',
           URI = ''https://op.example/auth?foo=bar'', Priority = 0\<rparr>,
          \<lparr>Type = ''http://specs.openid.net/auth/2.0/signon'',
           URI = ''https://user.example/id'', Priority = 0\<rparr>], None)
      else ([], Some (Foreign ''EOF'')))"

definition signon_world :: World where
  "signon_world =
     \<lparr>NewRequest = example_NewRequest, Do = signon_Do, Parse = example_Parse,
      Apply = example_Apply, Unmarshal = signon_Unmarshal\<rparr>"

definition body_of :: "string \<Rightarrow> ReadCloser" where
  "body_of doc = \<lparr>stream = 7, ReadAll = Inr doc\<rparr>"

section \<open>Properties of keyValueForm\<close>

lemma SplitN2_length:
  "ContainsRune v sep \<Longrightarrow> length (SplitN2 v sep) = 2"
  by (auto simp: ContainsRune_def SplitN2_def split: list.splits)

lemma SplitN2_parts:
  assumes "ContainsRune v sep"
  shows "SplitN2 v sep = [takeWhile (\<lambda>c. c \<noteq> sep) v, tl (dropWhile (\<lambda>c. c \<noteq> sep) v)]"
  using assms by (auto simp: ContainsRune_def SplitN2_def split: list.splits)

lemma keyValueForm_line_key:
  "keyValueForm_line m v k =
     (if ContainsRune v (CHR '':'') \<and> takeWhile (\<lambda>c. c \<noteq> CHR '':'') v = k
      then Some (tl (dropWhile (\<lambda>c. c \<noteq> CHR '':'') v)) else m k)"
  by (simp add: keyValueForm_line_def SplitN2_parts Let_def)

lemma foldl_keyValueForm_line:
  "foldl keyValueForm_line m ls k =
     (let hits = filter (\<lambda>v. ContainsRune v (CHR '':'') \<and> takeWhile (\<lambda>c. c \<noteq> CHR '':'') v = k) ls
      in if hits = [] then m k else Some (tl (dropWhile (\<lambda>c. c \<noteq> CHR '':'') (last hits))))"
proof (induction ls arbitrary: m)
  case Nil
  show ?case by simp
next
  case (Cons v ls)
  show ?case
    unfolding foldl_Cons Cons.IH
    by (simp add: keyValueForm_line_key Let_def)
qed

lemma takeWhile_dropWhile_colon:
  assumes "sep \<in> set v"
  shows "v = takeWhile (\<lambda>c. c \<noteq> sep) v @ sep # tl (dropWhile (\<lambda>c. c \<noteq> sep) v)"
proof -
  have "dropWhile (\<lambda>c. c \<noteq> sep) v \<noteq> []"
    using assms by (simp add: dropWhile_eq_Nil_conv)
  moreover have "hd (dropWhile (\<lambda>c. c \<noteq> sep) v) = sep"
    using assms hd_dropWhile[of "\<lambda>c. c \<noteq> sep" v] calculation by auto
  ultimately have "dropWhile (\<lambda>c. c \<noteq> sep) v = sep # tl (dropWhile (\<lambda>c. c \<noteq> sep) v)"
    by (metis list.collapse)
  then show ?thesis
    by (metis takeWhile_dropWhile_id)
qed

text \<open>
  C10. \<open>keyValueForm\<close> splits the input at newlines; a line without \<open>:\<close> leaves the map
  as it is; a line with \<open>:\<close> is cut at its first \<open>:\<close> only (the key holds no \<open>:\<close>, the value
  is all the rest of the line and may hold more of them); and the entry of a key is the
  value of the last line with that key, in input order, or absent when no line has it.
\<close>

theorem keyValueForm_first_colon_last_line:
  "(\<forall>v. ContainsRune v (CHR '':'') \<longrightarrow>
      (\<exists>key val. SplitN2 v (CHR '':'') = [key, val] \<and> v = key @ '':'' @ val
                  \<and> \<not> ContainsRune key (CHR '':'')))
   \<and> keyValueForm corpus k =
     (let hits = filter (\<lambda>v. ContainsRune v (CHR '':'') \<and> hd (SplitN2 v (CHR '':'')) = k)
                   (Split corpus newline)
      in if hits = [] then None else Some (SplitN2 (last hits) (CHR '':'') ! 1))"
proof (intro conjI allI impI)
  fix v
  assume c: "ContainsRune v (CHR '':'')"
  have "v = takeWhile (\<lambda>c. c \<noteq> CHR '':'') v @ '':'' @ tl (dropWhile (\<lambda>c. c \<noteq> CHR '':'') v)"
    using takeWhile_dropWhile_colon[of "CHR '':''" v] c by (simp add: ContainsRune_def)
  moreover have "\<not> ContainsRune (takeWhile (\<lambda>c. c \<noteq> CHR '':'') v) (CHR '':'')"
    by (auto simp: ContainsRune_def dest: set_takeWhileD)
  ultimately show "\<exists>key val. SplitN2 v (CHR '':'') = [key, val] \<and> v = key @ '':'' @ val
                  \<and> \<not> ContainsRune key (CHR '':'')"
    using SplitN2_parts[OF c] by blast
next
  let ?P = "\<lambda>v. ContainsRune v (CHR '':'') \<and> takeWhile (\<lambda>c. c \<noteq> CHR '':'') v = k"
  let ?Q = "\<lambda>v. ContainsRune v (CHR '':'') \<and> hd (SplitN2 v (CHR '':'')) = k"
  have PQ: "?P = ?Q"
    by (auto simp: SplitN2_parts fun_eq_iff)
  define hits where "hits = filter ?P (Split corpus newline)"
  have hitsQ: "filter ?Q (Split corpus newline) = hits"
    unfolding hits_def PQ ..
  have last_in: "hits \<noteq> [] \<Longrightarrow> ContainsRune (last hits) (CHR '':'')"
  proof -
    assume "hits \<noteq> []"
    then have "last hits \<in> set hits" by simp
    then show ?thesis unfolding hits_def by simp
  qed
  have "keyValueForm corpus k =
          (if hits = [] then None else Some (tl (dropWhile (\<lambda>c. c \<noteq> CHR '':'') (last hits))))"
    unfolding keyValueForm_def hits_def foldl_keyValueForm_line by (simp add: Let_def)
  also have "\<dots> = (if hits = [] then None else Some (SplitN2 (last hits) (CHR '':'') ! 1))"
    using last_in by (simp add: SplitN2_parts)
  finally show "keyValueForm corpus k =
     (let hits = filter ?Q (Split corpus newline)
      in if hits = [] then None else Some (SplitN2 (last hits) (CHR '':'') ! 1))"
    unfolding hitsQ Let_def .
qed

theorem keyValueForm_first_colon_last_line_witness:
  "ContainsRune ''a:1:2'' (CHR '':'')
   \<and> SplitN2 ''a:1:2'' (CHR '':'') = [''a'', ''1:2'']
   \<and> keyValueForm (''a:0'' @ [newline] @ ''junk'' @ [newline] @ ''a:1:2'') ''a'' = Some ''1:2''"
  using keyValueForm_first_colon_last_line
    [of "''a:0'' @ [newline] @ ''junk'' @ [newline] @ ''a:1:2''" "''a''"]
  by (simp add: ContainsRune_def SplitN2_def newline_def)


section \<open>Properties of Validate\<close>

lemma map_of_Set: "map_of (Set v key val) = (map_of v)(key \<mapsto> [val])"
  by (induction v key val rule: Set.induct) (auto simp: fun_eq_iff)

lemma Get_Set_other: "key' \<noteq> key \<Longrightarrow> Get (Set v key val) key' = Get v key'"
  by (simp add: Get_def map_of_Set)

lemma index_map_eq_iff: "x \<noteq> [] \<Longrightarrow> index_map m key = x \<longleftrightarrow> m key = Some x"
  by (auto simp: index_map_def split: option.splits)

lemma Validate_response_error_no_grant:
  "Validate_response values resp = (grant, ident, Some err) \<Longrightarrow> \<not> grant"
  by (auto simp: Validate_response_def Let_def split: sum.splits if_splits)

lemmas Validate_examples = assertion_def assertion_no_endpoint_def assertion_cancel_def
  operator_valid_def operator_old_def operator_unreachable_def reply_def confirmation_def
  old_confirmation_def

text \<open>
  C1. Let the assertion pass the endpoint and mode checks, let the POST give a response
  and no error, and let the body be read. If the \<open>ns\<close> entry of the key:value mapping of
  the body is \<open>http://specs.openid.net/auth/2.0\<close>, \<open>Validate\<close> returns no error, grants
  exactly when the \<open>is_valid\<close> entry is the string \<open>true\<close>, and returns the
  \<open>openid.claimed_id\<close> of the assertion parameters. If the \<open>ns\<close> entry is missing or
  different, it returns the error \<open>NS_INCORRECT\<close>. And whenever \<open>Validate\<close> returns an
  error, on any input, the grant is false.
\<close>

theorem Validate_grant_iff_is_valid:
  "(Get values ''openid.op_endpoint'' \<noteq> [] \<and> Get values ''openid.mode'' = ''id_res''
    \<and> http_Post (Get values ''openid.op_endpoint'') ''application/x-www-form-urlencoded''
         (Encode (Set values ''openid.mode'' ''check_authentication'')) = (Some resp, None)
    \<and> ReadAll (Body resp) = Inr body \<longrightarrow>
      (if keyValueForm body ''ns'' = Some ''http://specs.openid.net/auth/2.0''
       then ended (Validate http_Post values) =
              Return (keyValueForm body ''is_valid'' = Some ''true'',
                      Get values ''openid.claimed_id'', None)
       else ended (Validate http_Post values) =
              Return (False, [], Some (Validate_error NS_INCORRECT))))
   \<and> (ended (Validate http_Post values) = Return (grant, ident, Some err) \<longrightarrow> \<not> grant)"
proof (intro conjI impI)
  assume a: "Get values ''openid.op_endpoint'' \<noteq> [] \<and> Get values ''openid.mode'' = ''id_res''
    \<and> http_Post (Get values ''openid.op_endpoint'') ''application/x-www-form-urlencoded''
         (Encode (Set values ''openid.mode'' ''check_authentication'')) = (Some resp, None)
    \<and> ReadAll (Body resp) = Inr body"
  then have e: "ended (Validate http_Post values) =
      Return (Validate_response (Set values ''openid.mode'' ''check_authentication'') resp)"
    by (simp add: Validate_def Let_def)
  show "if keyValueForm body ''ns'' = Some ''http://specs.openid.net/auth/2.0''
       then ended (Validate http_Post values) =
              Return (keyValueForm body ''is_valid'' = Some ''true'',
                      Get values ''openid.claimed_id'', None)
       else ended (Validate http_Post values) =
              Return (False, [], Some (Validate_error NS_INCORRECT))"
    unfolding e using a
    by (simp add: Validate_response_def Let_def index_map_eq_iff Get_Set_other)
next
  assume r: "ended (Validate http_Post values) = Return (grant, ident, Some err)"
  show "\<not> grant"
    using r
    by (auto simp: Validate_def Let_def split: if_splits prod.splits option.splits
             dest: Validate_response_error_no_grant)
qed

theorem Validate_grant_iff_is_valid_witness:
  "Get assertion ''openid.op_endpoint'' \<noteq> [] \<and> Get assertion ''openid.mode'' = ''id_res''
   \<and> ReadAll (Body (reply confirmation)) = Inr confirmation
   \<and> keyValueForm confirmation ''ns'' = Some ''http://specs.openid.net/auth/2.0''
   \<and> ended (Validate operator_valid assertion) = Return (True, ''https://user.example/id'', None)
   \<and> keyValueForm old_confirmation ''ns'' = Some ''http://openid.net/signon/1.1''
   \<and> keyValueForm old_confirmation ''is_valid'' = Some ''true''
   \<and> ended (Validate operator_old assertion) =
       Return (False, [], Some (Validate_error NS_INCORRECT))"
  using Validate_grant_iff_is_valid
    [of assertion operator_valid "reply confirmation" confirmation False "[]" "Foreign []"]
    Validate_grant_iff_is_valid
    [of assertion operator_old "reply old_confirmation" old_confirmation False "[]"
        "Validate_error NS_INCORRECT"]
  by (simp add: Validate_examples Get_def keyValueForm_def keyValueForm_line_def
        ContainsRune_def SplitN2_def newline_def)

text \<open>
  C3. \<open>Validate\<close> checks its input before it posts anything. When \<open>openid.op_endpoint\<close> is
  absent or empty, it returns the error \<open>NO_OP_ENDPOINT\<close> and has issued no POST. When
  \<open>openid.op_endpoint\<close> is not empty and \<open>openid.mode\<close> is not \<open>id_res\<close>, it returns the
  error \<open>INCORRECT_MODE\<close> and has issued no POST.
\<close>

theorem Validate_checks_before_POST:
  "((map_of values ''openid.op_endpoint'' = None \<or> Get values ''openid.op_endpoint'' = []) \<longrightarrow>
      ended (Validate http_Post values) =
        Return (False, [], Some (Validate_error NO_OP_ENDPOINT))
      \<and> posts (Validate http_Post values) = [])
   \<and> (Get values ''openid.op_endpoint'' \<noteq> [] \<and> Get values ''openid.mode'' \<noteq> ''id_res'' \<longrightarrow>
      ended (Validate http_Post values) =
        Return (False, [], Some (Validate_error INCORRECT_MODE))
      \<and> posts (Validate http_Post values) = [])"
  by (auto simp: Validate_def Let_def Get_def)

theorem Validate_checks_before_POST_witness:
  "map_of assertion_no_endpoint ''openid.op_endpoint'' = None
   \<and> ended (Validate operator_valid assertion_no_endpoint) =
        Return (False, [], Some (Validate_error NO_OP_ENDPOINT))
   \<and> posts (Validate operator_valid assertion_no_endpoint) = []
   \<and> Get assertion_cancel ''openid.op_endpoint'' \<noteq> []
   \<and> Get assertion_cancel ''openid.mode'' \<noteq> ''id_res''
   \<and> ended (Validate operator_valid assertion_cancel) =
        Return (False, [], Some (Validate_error INCORRECT_MODE))
   \<and> posts (Validate operator_valid assertion_cancel) = []"
  using Validate_checks_before_POST [of assertion_no_endpoint operator_valid]
    Validate_checks_before_POST [of assertion_cancel operator_valid]
  by (simp add: Validate_examples Get_def)

text \<open>
  C4, as the claim states it, fails: after \<open>Validate\<close> has returned a grant for an
  assertion with mode \<open>id_res\<close>, the caller's collection holds the mode
  \<open>check_authentication\<close>.
\<close>

theorem Validate_callers_map_counterexample:
  "ended (Validate operator_valid assertion) = Return (True, ''https://user.example/id'', None)
   \<and> map_of assertion ''openid.mode'' = Some [''id_res'']
   \<and> map_of (values_after (Validate operator_valid assertion)) ''openid.mode'' =
       Some [''check_authentication'']"
  by (simp add: Validate_def Validate_response_def Validate_examples Get_def Let_def
        index_map_def keyValueForm_def keyValueForm_line_def ContainsRune_def SplitN2_def
        newline_def)

text \<open>
  C4, amended. \<open>Validate\<close> makes no copy. When the assertion fails the endpoint or the
  mode check, the caller's collection is unchanged. Otherwise \<open>Validate\<close> overwrites
  \<open>openid.mode\<close> with the single value \<open>check_authentication\<close> in the caller's own
  collection, leaves every other key as it was, and the body of the one POST it issues
  is the encoding of that collection.
\<close>

theorem Validate_stores_into_callers_map:
  "map_of (values_after (Validate http_Post values)) =
     (if Get values ''openid.op_endpoint'' = [] \<or> Get values ''openid.mode'' \<noteq> ''id_res''
      then map_of values
      else (map_of values)(''openid.mode'' \<mapsto> [''check_authentication'']))
   \<and> (Get values ''openid.op_endpoint'' \<noteq> [] \<and> Get values ''openid.mode'' = ''id_res'' \<longrightarrow>
        posts (Validate http_Post values) =
          [(Get values ''openid.op_endpoint'', ''application/x-www-form-urlencoded'',
            Encode (values_after (Validate http_Post values)))])"
  by (auto simp: Validate_def Let_def map_of_Set split: prod.splits option.splits)

theorem Validate_stores_into_callers_map_witness:
  "Get assertion ''openid.op_endpoint'' \<noteq> [] \<and> Get assertion ''openid.mode'' = ''id_res''
   \<and> map_of (values_after (Validate operator_valid assertion)) =
       (map_of assertion)(''openid.mode'' \<mapsto> [''check_authentication''])
   \<and> posts (Validate operator_valid assertion) =
          [(''https://op.example/auth'', ''application/x-www-form-urlencoded'',
            Encode (values_after (Validate operator_valid assertion)))]
   \<and> Get assertion_cancel ''openid.mode'' \<noteq> ''id_res''
   \<and> map_of (values_after (Validate operator_valid assertion_cancel)) = map_of assertion_cancel"
  using Validate_stores_into_callers_map [of operator_valid assertion]
    Validate_stores_into_callers_map [of operator_valid assertion_cancel]
  by (simp add: assertion_def assertion_cancel_def Get_def)

text \<open>
  C7. The claim asks for a transport error as the result when the POST fails. For an
  assertion that passes both checks and a POST that fails with no response (\<open>resp\<close> is
  nil), the code panics at the deferred \<open>resp.Body.Close()\<close> of line 164 and returns
  nothing.
\<close>

theorem Validate_nil_response_panics:
  "ended (Validate operator_unreachable assertion) =
     Panic ''invalid memory address or nil pointer dereference''"
  by (simp add: Validate_def Validate_examples Get_def Let_def)

lemma Validate_panics_without_response:
  assumes "Get values ''openid.op_endpoint'' \<noteq> []" and "Get values ''openid.mode'' = ''id_res''"
    and "\<And>url contentType body. fst (http_Post url contentType body) = None"
  shows "ended (Validate http_Post values) =
           Panic ''invalid memory address or nil pointer dereference''"
  using assms(1,2)
    assms(3)[of "Get values ''openid.op_endpoint''" "''application/x-www-form-urlencoded''"
             "Encode (Set values ''openid.mode'' ''check_authentication'')"]
  by (auto simp: Validate_def Let_def split: prod.splits)

section \<open>Properties of RedirectURI\<close>

lemma Index_present: "c \<in> set s \<Longrightarrow> Index s c = int (length (takeWhile (\<lambda>x. x \<noteq> c) s))"
proof (induction s)
  case Nil
  then show ?case by simp
next
  case (Cons a s)
  show ?case
  proof (cases "a = c")
    case True
    then show ?thesis by simp
  next
    case False
    with Cons.prems have "c \<in> set s" by simp
    then have "Index s c = int (length (takeWhile (\<lambda>x. x \<noteq> c) s))" by (rule Cons.IH)
    with False show ?thesis by (simp add: Let_def)
  qed
qed

lemma drop_Index:
  assumes "c \<in> set s"
  shows "Index s c \<noteq> - 1" and "drop (nat (Index s c)) s = dropWhile (\<lambda>x. x \<noteq> c) s"
proof -
  show "Index s c \<noteq> - 1" using Index_present[OF assms] by simp
  have "drop (length (takeWhile (\<lambda>x. x \<noteq> c) s)) s = dropWhile (\<lambda>x. x \<noteq> c) s"
    by (rule dropWhile_eq_drop[symmetric])
  then show "drop (nat (Index s c)) s = dropWhile (\<lambda>x. x \<noteq> c) s"
    using Index_present[OF assms] by simp
qed

lemma HasPrefix_xri_drop:
  assumes "HasPrefix ident ''xri://''" and "CHR ''#'' \<in> set ident"
  shows "CHR ''#'' \<in> set (drop 6 ident)"
proof -
  have "length ''xri://'' = 6" by simp
  then have t: "take 6 ident = ''xri://''"
    using assms(1) unfolding HasPrefix_def by metis
  have "set ident = set (take 6 ident) \<union> set (drop 6 ident)"
    by (metis append_take_drop_id set_append)
  with assms(2) have "CHR ''#'' \<in> set (take 6 ident) \<or> CHR ''#'' \<in> set (drop 6 ident)"
    by blast
  moreover have "CHR ''#'' \<notin> set (take 6 ident)"
    unfolding t by simp
  ultimately show ?thesis by blast
qed

text \<open>
  Whatever identifier holds a \<open>#\<close>: what \<open>RedirectURI\<close> gives to \<open>discover\<close> begins with
  the \<open>#\<close>, so the fragment is what is kept.
\<close>

lemma RedirectURI_identifier_starts_at_fragment:
  assumes "ContainsRune ident (CHR ''#'')" and "RedirectURI_identifier ident = Return x"
  shows "x \<noteq> [] \<and> hd x = CHR ''#''"
proof -
  define i1 where "i1 = (if HasPrefix ident ''xri://'' then drop 6 ident else ident)"
  have in1: "CHR ''#'' \<in> set i1"
    using assms(1) HasPrefix_xri_drop[of ident]
    unfolding i1_def ContainsRune_def by (cases "HasPrefix ident ''xri://''") simp_all
  then obtain c rest where i1: "i1 = c # rest" by (cases i1) auto
  define i2 where "i2 = (if runeIs c xri_global_context_symbol then ''http://xri.net/'' @ i1
                     else if \<not> HasPrefix i1 ''http://'' \<and> \<not> HasPrefix i1 ''https://''
                          then ''http://'' @ i1 else i1)"
  have in2: "CHR ''#'' \<in> set i2"
    using in1 unfolding i2_def by simp
  have "RedirectURI_identifier ident =
          Return (if Index i2 (CHR ''#'') \<noteq> - 1 then drop (nat (Index i2 (CHR ''#''))) i2 else i2)"
    unfolding RedirectURI_identifier_def i1_def[symmetric] Let_def i1 list.case
    unfolding i1[symmetric] i2_def ..
  with assms(2) drop_Index(1)[OF in2] have "x = drop (nat (Index i2 (CHR ''#''))) i2"
    by simp
  then have x: "x = dropWhile (\<lambda>c. c \<noteq> CHR ''#'') i2"
    using drop_Index(2)[OF in2] by simp
  have ne: "x \<noteq> []"
    unfolding x using in2 by auto
  moreover have "hd x = CHR ''#''"
    using hd_dropWhile[of "\<lambda>c. c \<noteq> CHR ''#''" i2] ne unfolding x by blast
  ultimately show ?thesis by blast
qed

lemmas world_examples = example_world_def flat_world_def example_Do_def example_NewRequest_def
  example_Unmarshal_def flat_Unmarshal_def example_Parse_def example_Apply_def idle_def
  body_of_def

text \<open>
  C2. The claim asks for the text before the first \<open>#\<close>. For the identifier
  \<open>http://user.example/#frag\<close> the code keeps \<open>#frag\<close>, the text from the \<open>#\<close> on
  (\<open>identifier[index:]\<close> at line 88), and that is the URL \<open>discover\<close> requests.
\<close>

theorem RedirectURI_identifier_keeps_fragment:
  "RedirectURI_identifier ''http://user.example/#frag'' = Return ''#frag''
   \<and> RedirectURI example_world ''http://user.example/#frag'' ''https://rp.example'' ''/cb'' idle =
       Some (Return ([], Some (Foreign ''unsupported protocol scheme'')),
             \<lparr>requested = [''#frag''], opened = [], closed = []\<rparr>)"
  by (simp add: RedirectURI_def RedirectURI_identifier_def HasPrefix_def
        xri_global_context_symbol_def Let_def discover.simps world_examples)

text \<open>
  C8. The claim asks for an error of kind EmptyIdentifier. For the empty identifier,
  and for \<open>xri://\<close>, which is empty once the prefix is stripped, the code indexes
  \<open>identifier[0]\<close> at line 79 and panics; it returns no error value and requests nothing.
\<close>

theorem RedirectURI_empty_identifier_panics:
  "RedirectURI w [] realm returnPoint net = Some (Panic ''index out of range'', net)
   \<and> RedirectURI w ''xri://'' realm returnPoint net = Some (Panic ''index out of range'', net)"
  by (simp add: RedirectURI_def RedirectURI_identifier_def HasPrefix_def)

lemma sort_Strings_keys:
  "sort_Strings [''openid.claimed_id'', ''openid.identity'', ''openid.realm'',
                 ''openid.return_to'', ''openid.mode'', ''openid.ns'']
   = [''openid.claimed_id'', ''openid.identity'', ''openid.mode'', ''openid.ns'',
      ''openid.realm'', ''openid.return_to'']"
  by (simp add: sort_Strings_def)

lemma QueryEscape_keys:
  "QueryEscape ''openid.claimed_id'' = ''openid.claimed_id''"
  "QueryEscape ''openid.identity'' = ''openid.identity''"
  "QueryEscape ''openid.realm'' = ''openid.realm''"
  "QueryEscape ''openid.return_to'' = ''openid.return_to''"
  "QueryEscape ''openid.mode'' = ''openid.mode''"
  "QueryEscape ''openid.ns'' = ''openid.ns''"
  "QueryEscape ''checkid_setup'' = ''checkid_setup''"
  "QueryEscape ''http://specs.openid.net/auth/2.0'' = ''http%3A%2F%2Fspecs.openid.net%2Fauth%2F2.0''"
  by (simp_all add: shouldEscape_def hexdigit_def)

lemma Encode_six:
  "Encode [(''openid.claimed_id'', [c]), (''openid.identity'', [c]), (''openid.realm'', [r]),
           (''openid.return_to'', [t]), (''openid.mode'', [''checkid_setup'']),
           (''openid.ns'', [''http://specs.openid.net/auth/2.0''])]
   = ''openid.claimed_id='' @ QueryEscape c
     @ ''&openid.identity='' @ QueryEscape c
     @ ''&openid.mode=checkid_setup''
     @ ''&openid.ns=http%3A%2F%2Fspecs.openid.net%2Fauth%2F2.0''
     @ ''&openid.realm='' @ QueryEscape r
     @ ''&openid.return_to='' @ QueryEscape t"
  unfolding Encode_def
  apply (simp only: list.map fst_conv)
  apply (subst remdups_id_iff_distinct[THEN iffD2])
   apply simp
  apply (simp only: sort_Strings_keys)
  apply (simp add: QueryEscape_keys del: QueryEscape.simps)
  done

lemma unhex_hexdigit: "n < 16 \<Longrightarrow> unhex (hexdigit n) = Some n"
proof -
  assume "n < 16"
  then have "n \<in> set [0..<16]" by simp
  moreover have "\<forall>n\<in>set [0..<16]. unhex (hexdigit n) = Some n"
    by code_simp
  ultimately show ?thesis by blast
qed

lemma shouldEscape_marks:
  "shouldEscape (CHR ''%'')" "shouldEscape (CHR ''+'')" "shouldEscape (CHR ''&'')"
  "shouldEscape (CHR ''='')" "shouldEscape (CHR '' '')"
  by (simp_all add: shouldEscape_def)

lemma QueryUnescape_byte:
  "QueryUnescape (CHR ''%'' # hexdigit (of_char c div 16) # hexdigit (of_char c mod 16) # cs) =
     map_option ((#) c) (QueryUnescape cs)"
proof -
  have d: "(of_char c :: nat) div 16 < 16"
    using nat_of_char_less_256[of c] by presburger
  have m: "(of_char c :: nat) mod 16 < 16" by simp
  have "16 * ((of_char c :: nat) div 16) + of_char c mod 16 = of_char c"
    by simp
  then have "char_of (16 * ((of_char c :: nat) div 16) + of_char c mod 16) = c"
    by (simp only: char_of_char)
  then show ?thesis
    by (simp add: unhex_hexdigit[OF d] unhex_hexdigit[OF m])
qed

text \<open>Decoding what \<open>QueryEscape\<close> gives returns the string that was encoded.\<close>

lemma QueryUnescape_QueryEscape: "QueryUnescape (QueryEscape s) = Some s"
proof (induction s)
  case Nil
  show ?case by simp
next
  case (Cons c s)
  show ?case
  proof (cases "shouldEscape c")
    case True
    show ?thesis
    proof (cases "c = CHR '' ''")
      case sp: True
      with True show ?thesis using Cons.IH by simp
    next
      case False
      have "QueryEscape (c # s) =
              CHR ''%'' # hexdigit (of_char c div 16) # hexdigit (of_char c mod 16) # QueryEscape s"
        using True False by simp
      then show ?thesis
        by (simp only: QueryUnescape_byte Cons.IH) simp
    qed
  next
    case False
    then have "c \<noteq> CHR ''%''" "c \<noteq> CHR ''+''"
      using shouldEscape_marks by auto
    with False show ?thesis using Cons.IH by simp
  qed
qed

lemma hexdigit_kept: "\<not> shouldEscape (hexdigit n)"
proof -
  have "n mod 16 \<in> set [0..<16]" by simp
  moreover have "\<forall>n\<in>set [0..<16]. \<not> shouldEscape (hexdigit n)"
    by code_simp
  moreover have "hexdigit n = hexdigit (n mod 16)"
    by (simp add: hexdigit_def)
  ultimately show ?thesis by metis
qed

text \<open>What \<open>QueryEscape\<close> gives holds neither of the two separators of a query.\<close>

lemma QueryEscape_no_separator:
  "CHR ''&'' \<notin> set (QueryEscape s)" "CHR ''='' \<notin> set (QueryEscape s)"
proof -
  have "c \<in> set (QueryEscape s) \<Longrightarrow> \<not> shouldEscape c \<or> c = CHR ''+'' \<or> c = CHR ''%''" for c
    by (induction s) (auto simp: hexdigit_kept split: if_splits)
  then show "CHR ''&'' \<notin> set (QueryEscape s)" "CHR ''='' \<notin> set (QueryEscape s)"
    using shouldEscape_marks by auto
qed

lemma Split_no_sep: "sep \<notin> set a \<Longrightarrow> Split a sep = [a]"
  by (induction a) auto

lemma Split_append: "sep \<notin> set a \<Longrightarrow> Split (a @ sep # b) sep = a # Split b sep"
  by (induction a) auto

lemma SplitN2_pair:
  assumes "sep \<notin> set k"
  shows "SplitN2 (k @ sep # v) sep = [k, v]"
proof -
  have all: "\<And>x. x \<in> set k \<Longrightarrow> x \<noteq> sep"
    using assms by blast
  have "dropWhile (\<lambda>c. c \<noteq> sep) (k @ sep # v) = sep # v"
    using all by simp
  moreover have "takeWhile (\<lambda>c. c \<noteq> sep) (k @ sep # v) = k"
    using all by simp
  ultimately show ?thesis
    by (simp add: SplitN2_def)
qed

lemma Split_six:
  assumes "CHR ''&'' \<notin> set p1" "CHR ''&'' \<notin> set p2" "CHR ''&'' \<notin> set p3"
    "CHR ''&'' \<notin> set p4" "CHR ''&'' \<notin> set p5" "CHR ''&'' \<notin> set p6"
  shows "Split (p1 @ ''&'' @ p2 @ ''&'' @ p3 @ ''&'' @ p4 @ ''&'' @ p5 @ ''&'' @ p6) (CHR ''&'')
           = [p1, p2, p3, p4, p5, p6]"
  using assms by (simp add: Split_append Split_no_sep)

lemma SplitN2_key:
  assumes "CHR ''='' \<notin> set key"
  shows "SplitN2 (key @ ''='' @ val) (CHR ''='') = [key, val]"
  using SplitN2_pair[OF assms] by simp

lemma SplitN2_keys:
  "SplitN2 (''openid.claimed_id'' @ ''='' @ val) (CHR ''='') = [''openid.claimed_id'', val]"
  "SplitN2 (''openid.identity'' @ ''='' @ val) (CHR ''='') = [''openid.identity'', val]"
  "SplitN2 (''openid.mode'' @ ''='' @ val) (CHR ''='') = [''openid.mode'', val]"
  "SplitN2 (''openid.ns'' @ ''='' @ val) (CHR ''='') = [''openid.ns'', val]"
  "SplitN2 (''openid.realm'' @ ''='' @ val) (CHR ''='') = [''openid.realm'', val]"
  "SplitN2 (''openid.return_to'' @ ''='' @ val) (CHR ''='') = [''openid.return_to'', val]"
  by (rule SplitN2_key, simp)+

lemma QueryUnescape_constants:
  "QueryUnescape ''checkid_setup'' = Some ''checkid_setup''"
  "QueryUnescape ''http%3A%2F%2Fspecs.openid.net%2Fauth%2F2.0'' =
     Some ''http://specs.openid.net/auth/2.0''"
  using QueryUnescape_QueryEscape[of "''checkid_setup''"]
    QueryUnescape_QueryEscape[of "''http://specs.openid.net/auth/2.0''"]
  by (simp_all only: QueryEscape_keys)

text \<open>Lines 101 to 116 with \<open>Encode\<close> worked out.\<close>

lemma RedirectURI_url_explicit:
  "RedirectURI_url endpoint Claimed realm returnPoint =
     endpoint @ (if ContainsRune endpoint (CHR ''?'') then ''&'' else ''?'')
     @ (''openid.claimed_id''
         @ ''='' @ QueryEscape (if Claimed = []
                                then ''http://specs.openid.net/auth/2.0/identifier_select''
                                else Claimed))
     @ ''&'' @ (''openid.identity''
         @ ''='' @ QueryEscape (if Claimed = []
                                then ''http://specs.openid.net/auth/2.0/identifier_select''
                                else Claimed))
     @ ''&'' @ (''openid.mode'' @ ''='' @ ''checkid_setup'')
     @ ''&'' @ (''openid.ns'' @ ''='' @ ''http%3A%2F%2Fspecs.openid.net%2Fauth%2F2.0'')
     @ ''&'' @ (''openid.realm'' @ ''='' @ QueryEscape realm)
     @ ''&'' @ (''openid.return_to'' @ ''='' @ QueryEscape (realm @ returnPoint))"
  unfolding RedirectURI_url_def Let_def Encode_six by simp

lemmas signon_examples = signon_world_def signon_Do_def signon_Unmarshal_def
  example_NewRequest_def example_Parse_def example_Apply_def idle_def

text \<open>
  C5. Let the identifier be normalized, let \<open>discover\<close> return a document for it, and let
  \<open>getIdentifiers\<close> give the endpoint and the claimed identity. Then \<open>RedirectURI\<close>
  returns, with no error, the endpoint, then \<open>?\<close> when the endpoint holds no \<open>?\<close> and \<open>&\<close>
  when it holds one, then the query. Cut at its \<open>&\<close>, the query is exactly six parameters,
  each \<open>key=value\<close>: \<open>openid.claimed_id\<close> and \<open>openid.identity\<close> with the claimed
  identity, or with \<open>http://specs.openid.net/auth/2.0/identifier_select\<close> when it is
  empty, \<open>openid.mode\<close> with \<open>checkid_setup\<close>, \<open>openid.ns\<close> with
  \<open>http://specs.openid.net/auth/2.0\<close>, \<open>openid.realm\<close> with the realm, and
  \<open>openid.return_to\<close> with the realm followed by the return point. Each value is
  URL-encoded: decoding it gives the value back.
\<close>

theorem RedirectURI_parameters:
  "RedirectURI_identifier identifier = Return normalized
   \<and> discover w normalized net = Some (Return (Some xrds, None), net1)
   \<and> getIdentifiers w xrds net1 = ((endpoint, Claimed, None), net2) \<longrightarrow>
     (let claimed = (if Claimed = [] then ''http://specs.openid.net/auth/2.0/identifier_select''
                     else Claimed);
          query = ''openid.claimed_id='' @ QueryEscape claimed
                  @ ''&openid.identity='' @ QueryEscape claimed
                  @ ''&openid.mode=checkid_setup''
                  @ ''&openid.ns=http%3A%2F%2Fspecs.openid.net%2Fauth%2F2.0''
                  @ ''&openid.realm='' @ QueryEscape realm
                  @ ''&openid.return_to='' @ QueryEscape (realm @ returnPoint)
      in RedirectURI w identifier realm returnPoint net =
           Some (Return (endpoint @ (if ContainsRune endpoint (CHR ''?'') then ''&'' else ''?'')
                         @ query, None), net2)
         \<and> map (\<lambda>p. SplitN2 p (CHR ''='')) (Split query (CHR ''&'')) =
             [[''openid.claimed_id'', QueryEscape claimed],
              [''openid.identity'', QueryEscape claimed],
              [''openid.mode'', ''checkid_setup''],
              [''openid.ns'', ''http%3A%2F%2Fspecs.openid.net%2Fauth%2F2.0''],
              [''openid.realm'', QueryEscape realm],
              [''openid.return_to'', QueryEscape (realm @ returnPoint)]]
         \<and> map QueryUnescape
               [QueryEscape claimed, ''checkid_setup'',
                ''http%3A%2F%2Fspecs.openid.net%2Fauth%2F2.0'',
                QueryEscape realm, QueryEscape (realm @ returnPoint)] =
             [Some claimed, Some ''checkid_setup'', Some ''http://specs.openid.net/auth/2.0'',
              Some realm, Some (realm @ returnPoint)])"
proof (intro impI)
  assume a: "RedirectURI_identifier identifier = Return normalized
   \<and> discover w normalized net = Some (Return (Some xrds, None), net1)
   \<and> getIdentifiers w xrds net1 = ((endpoint, Claimed, None), net2)"
  define claimed where
    "claimed = (if Claimed = [] then ''http://specs.openid.net/auth/2.0/identifier_select''
                else Claimed)"
  define p1 where "p1 = ''openid.claimed_id'' @ ''='' @ QueryEscape claimed"
  define p2 where "p2 = ''openid.identity'' @ ''='' @ QueryEscape claimed"
  define p3 where "p3 = ''openid.mode'' @ ''='' @ ''checkid_setup''"
  define p4 where "p4 = ''openid.ns'' @ ''='' @ ''http%3A%2F%2Fspecs.openid.net%2Fauth%2F2.0''"
  define p5 where "p5 = ''openid.realm'' @ ''='' @ QueryEscape realm"
  define p6 where "p6 = ''openid.return_to'' @ ''='' @ QueryEscape (realm @ returnPoint)"
  define query where
    "query = ''openid.claimed_id='' @ QueryEscape claimed
                  @ ''&openid.identity='' @ QueryEscape claimed
                  @ ''&openid.mode=checkid_setup''
                  @ ''&openid.ns=http%3A%2F%2Fspecs.openid.net%2Fauth%2F2.0''
                  @ ''&openid.realm='' @ QueryEscape realm
                  @ ''&openid.return_to='' @ QueryEscape (realm @ returnPoint)"
  have q: "query = p1 @ ''&'' @ p2 @ ''&'' @ p3 @ ''&'' @ p4 @ ''&'' @ p5 @ ''&'' @ p6"
    unfolding query_def p1_def p2_def p3_def p4_def p5_def p6_def by simp
  have url: "RedirectURI_url endpoint Claimed realm returnPoint =
      endpoint @ (if ContainsRune endpoint (CHR ''?'') then ''&'' else ''?'') @ query"
    unfolding RedirectURI_url_explicit q p1_def p2_def p3_def p4_def p5_def p6_def claimed_def
    by simp
  have run: "RedirectURI w identifier realm returnPoint net =
      Some (Return (RedirectURI_url endpoint Claimed realm returnPoint, None), net2)"
    using a by (simp add: RedirectURI_def)
  have amp: "CHR ''&'' \<notin> set p1" "CHR ''&'' \<notin> set p2" "CHR ''&'' \<notin> set p3"
    "CHR ''&'' \<notin> set p4" "CHR ''&'' \<notin> set p5" "CHR ''&'' \<notin> set p6"
    unfolding p1_def p2_def p3_def p4_def p5_def p6_def
    by (simp_all add: QueryEscape_no_separator del: QueryEscape.simps)
  have pieces: "Split query (CHR ''&'') = [p1, p2, p3, p4, p5, p6]"
    unfolding q by (rule Split_six[OF amp])
  have pairs: "map (\<lambda>p. SplitN2 p (CHR ''='')) [p1, p2, p3, p4, p5, p6] =
             [[''openid.claimed_id'', QueryEscape claimed],
              [''openid.identity'', QueryEscape claimed],
              [''openid.mode'', ''checkid_setup''],
              [''openid.ns'', ''http%3A%2F%2Fspecs.openid.net%2Fauth%2F2.0''],
              [''openid.realm'', QueryEscape realm],
              [''openid.return_to'', QueryEscape (realm @ returnPoint)]]"
    unfolding p1_def p2_def p3_def p4_def p5_def p6_def list.map
    by (simp only: SplitN2_keys)
  have decode: "map QueryUnescape
               [QueryEscape claimed, ''checkid_setup'',
                ''http%3A%2F%2Fspecs.openid.net%2Fauth%2F2.0'',
                QueryEscape realm, QueryEscape (realm @ returnPoint)] =
             [Some claimed, Some ''checkid_setup'', Some ''http://specs.openid.net/auth/2.0'',
              Some realm, Some (realm @ returnPoint)]"
    by (simp only: list.map QueryUnescape_QueryEscape QueryUnescape_constants)
  show "let claimed = (if Claimed = [] then ''http://specs.openid.net/auth/2.0/identifier_select''
                     else Claimed);
          query = ''openid.claimed_id='' @ QueryEscape claimed
                  @ ''&openid.identity='' @ QueryEscape claimed
                  @ ''&openid.mode=checkid_setup''
                  @ ''&openid.ns=http%3A%2F%2Fspecs.openid.net%2Fauth%2F2.0''
                  @ ''&openid.realm='' @ QueryEscape realm
                  @ ''&openid.return_to='' @ QueryEscape (realm @ returnPoint)
      in RedirectURI w identifier realm returnPoint net =
           Some (Return (endpoint @ (if ContainsRune endpoint (CHR ''?'') then ''&'' else ''?'')
                         @ query, None), net2)
         \<and> map (\<lambda>p. SplitN2 p (CHR ''='')) (Split query (CHR ''&'')) =
             [[''openid.claimed_id'', QueryEscape claimed],
              [''openid.identity'', QueryEscape claimed],
              [''openid.mode'', ''checkid_setup''],
              [''openid.ns'', ''http%3A%2F%2Fspecs.openid.net%2Fauth%2F2.0''],
              [''openid.realm'', QueryEscape realm],
              [''openid.return_to'', QueryEscape (realm @ returnPoint)]]
         \<and> map QueryUnescape
               [QueryEscape claimed, ''checkid_setup'',
                ''http%3A%2F%2Fspecs.openid.net%2Fauth%2F2.0'',
                QueryEscape realm, QueryEscape (realm @ returnPoint)] =
             [Some claimed, Some ''checkid_setup'', Some ''http://specs.openid.net/auth/2.0'',
              Some realm, Some (realm @ returnPoint)]"
    unfolding Let_def claimed_def[symmetric] query_def[symmetric]
    using run url pieces pairs decode by (simp only:)
qed

theorem RedirectURI_parameters_witness:
  "RedirectURI_identifier ''user.example/'' = Return ''http://user.example/''
   \<and> discover example_world ''http://user.example/'' idle =
       Some (Return (Some \<lparr>stream = 1, ReadAll = Inr xrds_document\<rparr>, None),
             \<lparr>requested = [''http://user.example/'', ''http://user.example/xrds''],
              opened = [\<lparr>stream = 0, ReadAll = Inr []\<rparr>,
                        \<lparr>stream = 1, ReadAll = Inr xrds_document\<rparr>],
              closed = []\<rparr>)
   \<and> fst (getIdentifiers example_world \<lparr>stream = 1, ReadAll = Inr xrds_document\<rparr>
            \<lparr>requested = [''http://user.example/'', ''http://user.example/xrds''],
             opened = [\<lparr>stream = 0, ReadAll = Inr []\<rparr>,
                       \<lparr>stream = 1, ReadAll = Inr xrds_document\<rparr>],
             closed = []\<rparr>) = (''https://op.example/auth'', [], None)
   \<and> map_option fst
         (RedirectURI example_world ''user.example/'' ''https://rp.example'' ''/cb'' idle) =
       Some (Return
         (''https://op.example/auth?openid.claimed_id=''
          @ ''http%3A%2F%2Fspecs.openid.net%2Fauth%2F2.0%2Fidentifier_select''
          @ ''&openid.identity=http%3A%2F%2Fspecs.openid.net%2Fauth%2F2.0%2Fidentifier_select''
          @ ''&openid.mode=checkid_setup''
          @ ''&openid.ns=http%3A%2F%2Fspecs.openid.net%2Fauth%2F2.0''
          @ ''&openid.realm=https%3A%2F%2Frp.example''
          @ ''&openid.return_to=https%3A%2F%2Frp.example%2Fcb'', None))
   \<and> RedirectURI_identifier ''https://id.example/'' = Return ''https://id.example/''
   \<and> map_option fst (discover signon_world ''https://id.example/'' idle) =
       Some (Return (Some \<lparr>stream = 2, ReadAll = Inr signon_document\<rparr>, None))
   \<and> map_option fst
         (RedirectURI signon_world ''https://id.example/'' ''https://rp.example'' ''/cb'' idle) =
       Some (Return
         (''https://op.example/auth?foo=bar&openid.claimed_id=https%3A%2F%2Fuser.example%2Fid''
          @ ''&openid.identity=https%3A%2F%2Fuser.example%2Fid''
          @ ''&openid.mode=checkid_setup''
          @ ''&openid.ns=http%3A%2F%2Fspecs.openid.net%2Fauth%2F2.0''
          @ ''&openid.realm=https%3A%2F%2Frp.example''
          @ ''&openid.return_to=https%3A%2F%2Frp.example%2Fcb'', None))"
proof -
  let ?net1 = "\<lparr>requested = [''http://user.example/'', ''http://user.example/xrds''],
              opened = [\<lparr>stream = 0, ReadAll = Inr []\<rparr>,
                        \<lparr>stream = 1, ReadAll = Inr xrds_document\<rparr>],
              closed = []\<rparr>"
  let ?body1 = "\<lparr>stream = 1, ReadAll = Inr xrds_document\<rparr>"
  let ?net2 = "?net1\<lparr>closed := [?body1]\<rparr>"
  let ?body2 = "\<lparr>stream = 2, ReadAll = Inr signon_document\<rparr>"
  let ?net3 = "\<lparr>requested = [''https://id.example/''], opened = [?body2], closed = []\<rparr>"
  let ?net4 = "?net3\<lparr>closed := [?body2]\<rparr>"
  have n1: "RedirectURI_identifier ''user.example/'' = Return ''http://user.example/''"
    by (simp add: RedirectURI_identifier_def HasPrefix_def xri_global_context_symbol_def Let_def)
  have d1: "discover example_world ''http://user.example/'' idle =
              Some (Return (Some ?body1, None), ?net1)"
    by (simp add: discover.simps world_examples HasPrefix_def Let_def)
  have g1: "getIdentifiers example_world ?body1 ?net1 =
              ((''https://op.example/auth'', [], None), ?net2)"
    by (simp add: getIdentifiers_def getIdentifiers_service_def world_examples HasPrefix_def
          xrds_document_def)
  have n2: "RedirectURI_identifier ''https://id.example/'' = Return ''https://id.example/''"
    by (simp add: RedirectURI_identifier_def HasPrefix_def xri_global_context_symbol_def Let_def)
  have d2: "discover signon_world ''https://id.example/'' idle =
              Some (Return (Some ?body2, None), ?net3)"
    by (simp add: discover.simps signon_examples HasPrefix_def Let_def)
  have g2: "getIdentifiers signon_world ?body2 ?net3 =
              ((''https://op.example/auth?foo=bar'', ''https://user.example/id'', None), ?net4)"
    by (simp add: getIdentifiers_def getIdentifiers_service_def signon_examples HasPrefix_def
          signon_document_def)
  have r1: "map_option fst
         (RedirectURI example_world ''user.example/'' ''https://rp.example'' ''/cb'' idle) =
       Some (Return
         (''https://op.example/auth?openid.claimed_id=''
          @ ''http%3A%2F%2Fspecs.openid.net%2Fauth%2F2.0%2Fidentifier_select''
          @ ''&openid.identity=http%3A%2F%2Fspecs.openid.net%2Fauth%2F2.0%2Fidentifier_select''
          @ ''&openid.mode=checkid_setup''
          @ ''&openid.ns=http%3A%2F%2Fspecs.openid.net%2Fauth%2F2.0''
          @ ''&openid.realm=https%3A%2F%2Frp.example''
          @ ''&openid.return_to=https%3A%2F%2Frp.example%2Fcb'', None))"
    using RedirectURI_parameters
      [of "''user.example/''" "''http://user.example/''" example_world idle ?body1 ?net1
          "''https://op.example/auth''" "[]" ?net2 "''https://rp.example''" "''/cb''"]
      n1 d1 g1
    by (simp add: Let_def ContainsRune_def shouldEscape_def hexdigit_def)
  have r2: "map_option fst
         (RedirectURI signon_world ''https://id.example/'' ''https://rp.example'' ''/cb'' idle) =
       Some (Return
         (''https://op.example/auth?foo=bar&openid.claimed_id=https%3A%2F%2Fuser.example%2Fid''
          @ ''&openid.identity=https%3A%2F%2Fuser.example%2Fid''
          @ ''&openid.mode=checkid_setup''
          @ ''&openid.ns=http%3A%2F%2Fspecs.openid.net%2Fauth%2F2.0''
          @ ''&openid.realm=https%3A%2F%2Frp.example''
          @ ''&openid.return_to=https%3A%2F%2Frp.example%2Fcb'', None))"
    using RedirectURI_parameters
      [of "''https://id.example/''" "''https://id.example/''" signon_world idle ?body2 ?net3
          "''https://op.example/auth?foo=bar''" "''https://user.example/id''" ?net4
          "''https://rp.example''" "''/cb''"]
      n2 d2 g2
    by (simp add: Let_def ContainsRune_def shouldEscape_def hexdigit_def)
  show ?thesis
    using n1 d1 g1 n2 d2 r1 r2 by simp
qed

section \<open>Properties of getIdentifiers\<close>

lemma server_not_signon:
  "HasPrefix t ''http://specs.openid.net/auth/2.0/server'' \<Longrightarrow>
   \<not> HasPrefix t ''http://specs.openid.net/auth/2.0/signon''"
  by (auto simp: HasPrefix_def)

lemma getIdentifiers_service_step:
  "getIdentifiers_service (OP, Claimed) v =
     (if HasPrefix (Type v) ''http://specs.openid.net/auth/2.0/server'' then (URI v, Claimed)
      else if HasPrefix (Type v) ''http://specs.openid.net/auth/2.0/signon'' then (OP, URI v)
      else (OP, Claimed))"
  by (simp add: getIdentifiers_service_def)

lemma foldl_getIdentifiers_service:
  "foldl getIdentifiers_service (OP, Claimed) services =
     (let servers = filter (\<lambda>v. HasPrefix (Type v) ''http://specs.openid.net/auth/2.0/server'') services;
          signons = filter (\<lambda>v. HasPrefix (Type v) ''http://specs.openid.net/auth/2.0/signon'') services
      in (if servers = [] then OP else URI (last servers),
          if signons = [] then Claimed else URI (last signons)))"
proof (induction services arbitrary: OP Claimed)
  case Nil
  show ?case by simp
next
  case (Cons v services)
  consider (server) "HasPrefix (Type v) ''http://specs.openid.net/auth/2.0/server''"
    | (signon) "\<not> HasPrefix (Type v) ''http://specs.openid.net/auth/2.0/server''"
               "HasPrefix (Type v) ''http://specs.openid.net/auth/2.0/signon''"
    | (other) "\<not> HasPrefix (Type v) ''http://specs.openid.net/auth/2.0/server''"
              "\<not> HasPrefix (Type v) ''http://specs.openid.net/auth/2.0/signon''"
    by blast
  then show ?case
  proof cases
    case server
    then have no: "\<not> HasPrefix (Type v) ''http://specs.openid.net/auth/2.0/signon''"
      by (rule server_not_signon)
    with server have "getIdentifiers_service (OP, Claimed) v = (URI v, Claimed)"
      by (simp add: getIdentifiers_service_step)
    with server no show ?thesis
      by (simp add: Cons.IH Let_def)
  next
    case signon
    then have "getIdentifiers_service (OP, Claimed) v = (OP, URI v)"
      by (simp add: getIdentifiers_service_step)
    with signon show ?thesis
      by (simp add: Cons.IH Let_def)
  next
    case other
    then have "getIdentifiers_service (OP, Claimed) v = (OP, Claimed)"
      by (simp add: getIdentifiers_service_step)
    with other show ?thesis
      by (simp add: Cons.IH Let_def)
  qed
qed

lemma URI_last_Priority_update:
  "xs \<noteq> [] \<Longrightarrow> URI (last (map (Priority_update f) xs)) = URI (last xs)"
  by (simp add: last_map)

text \<open>
  C6, as the claim states it, fails: for the document cut off after its first \<open>Service\<close>
  element the decoder reports a syntax error, and \<open>getIdentifiers\<close> returns no error and
  the endpoint of that element, not two empty strings.
\<close>

theorem getIdentifiers_truncated_counterexample:
  "snd (Unmarshal example_world truncated_document) =
     Some (Foreign ''XML syntax error: unexpected EOF'')
   \<and> fst (getIdentifiers example_world (body_of truncated_document) idle) =
       (''https://op.example/auth'', [], None)"
  by (simp add: getIdentifiers_def getIdentifiers_service_def world_examples HasPrefix_def
        truncated_document_def xrds_document_def)

text \<open>
  C6, amended. When the document has been read, \<open>getIdentifiers\<close> returns no error,
  whether or not the decoder reports one, and works on the \<open>Service\<close> entries the
  decoder has stored: the operator endpoint is the URI of the last stored entry whose
  type starts with \<open>http://specs.openid.net/auth/2.0/server\<close>, the claimed identity the
  URI of the last stored entry whose type starts with
  \<open>http://specs.openid.net/auth/2.0/signon\<close>, each empty when there is no such entry. So
  both are empty when the decoder has stored no entry, and the result is the same for
  any other priorities of the entries.
\<close>

theorem getIdentifiers_last_match:
  "ReadAll xrds = Inr xmlDoc \<longrightarrow>
     fst (getIdentifiers w xrds net) =
       (let services = fst (Unmarshal w xmlDoc);
            servers = filter (\<lambda>v. HasPrefix (Type v) ''http://specs.openid.net/auth/2.0/server'') services;
            signons = filter (\<lambda>v. HasPrefix (Type v) ''http://specs.openid.net/auth/2.0/signon'') services
        in (if servers = [] then [] else URI (last servers),
            if signons = [] then [] else URI (last signons), None))
     \<and> (fst (Unmarshal w xmlDoc) = [] \<longrightarrow> fst (getIdentifiers w xrds net) = ([], [], None))
     \<and> (fst (Unmarshal w' xmlDoc) = map (Priority_update f) (fst (Unmarshal w xmlDoc)) \<longrightarrow>
          fst (getIdentifiers w' xrds net) = fst (getIdentifiers w xrds net))"
  by (simp add: getIdentifiers_def foldl_getIdentifiers_service Let_def filter_map o_def
        URI_last_Priority_update split: prod.splits)

theorem getIdentifiers_last_match_witness:
  "ReadAll (body_of priority_document) = Inr priority_document
   \<and> fst (getIdentifiers example_world (body_of priority_document) idle) =
       (''https://op2.example/auth'', [], None)
   \<and> fst (Unmarshal flat_world priority_document) =
       map (Priority_update (\<lambda>p. 0)) (fst (Unmarshal example_world priority_document))
   \<and> fst (getIdentifiers flat_world (body_of priority_document) idle) =
       (''https://op2.example/auth'', [], None)
   \<and> fst (Unmarshal example_world ''not XML'') = []
   \<and> snd (Unmarshal example_world ''not XML'') = Some (Foreign ''EOF'')
   \<and> fst (getIdentifiers example_world (body_of ''not XML'') idle) = ([], [], None)"
  using getIdentifiers_last_match
      [of "body_of priority_document" priority_document example_world idle flat_world "\<lambda>p. 0"]
    getIdentifiers_last_match
      [of "body_of ''not XML''" "''not XML''" example_world idle example_world "\<lambda>p. p"]
  by (simp add: world_examples HasPrefix_def priority_document_def truncated_document_def
        xrds_document_def)

section \<open>Properties of discover\<close>

text \<open>Whatever the world: a run of \<open>discover\<close> that returns has closed nothing.\<close>

lemma discover_closes_nothing:
  assumes "discover w ident net = Some y"
  shows "closed (snd y) = closed net"
  using assms
proof (induction w ident net y rule: discover.raw_induct[rotated 1, consumes 1])
  case (1 discover w ident net y)
  show ?case using 1(2)
    by (auto simp: Let_def split: option.splits if_splits sum.splits dest: 1(1))
qed

lemma discover_keeps_opened:
  assumes "discover w ident net = Some y"
  shows "set (opened net) \<subseteq> set (opened (snd y))"
  using assms
proof (induction w ident net y rule: discover.raw_induct[rotated 1, consumes 1])
  case (1 discover w ident net y)
  show ?case using 1(2)
    by (auto simp: Let_def split: option.splits if_splits sum.splits dest!: 1(1))
qed

text \<open>
  C9. The claim asks that every body fetched by \<open>discover\<close> is closed before it returns,
  but for the one handed to the caller. For a first response with an \<open>X-Xrds-Location\<close>
  header and a second with the content type \<open>application/xrds+xml\<close>, \<open>discover\<close> returns
  the second body, and the first (stream \<open>0\<close>) has been opened and is not closed.
\<close>

theorem discover_leaves_body_open:
  "discover example_world ''http://user.example/'' idle =
     Some (Return (Some \<lparr>stream = 1, ReadAll = Inr xrds_document\<rparr>, None),
           \<lparr>requested = [''http://user.example/'', ''http://user.example/xrds''],
            opened = [\<lparr>stream = 0, ReadAll = Inr []\<rparr>,
                      \<lparr>stream = 1, ReadAll = Inr xrds_document\<rparr>],
            closed = []\<rparr>)"
  by (simp add: discover.simps world_examples HasPrefix_def Let_def)

text \<open>
  The whole of \<open>RedirectURI\<close> in that world: \<open>getIdentifiers\<close> closes the body it is
  given, and the body of the first response stays open.
\<close>

lemma RedirectURI_example:
  "RedirectURI example_world ''user.example/'' ''https://rp.example'' ''/cb'' idle =
    Some (Return (''https://op.example/auth?openid.claimed_id=''
                  @ ''http%3A%2F%2Fspecs.openid.net%2Fauth%2F2.0%2Fidentifier_select''
                  @ ''&openid.identity=''
                  @ ''http%3A%2F%2Fspecs.openid.net%2Fauth%2F2.0%2Fidentifier_select''
                  @ ''&openid.mode=checkid_setup''
                  @ ''&openid.ns=http%3A%2F%2Fspecs.openid.net%2Fauth%2F2.0''
                  @ ''&openid.realm=https%3A%2F%2Frp.example''
                  @ ''&openid.return_to=https%3A%2F%2Frp.example%2Fcb'', None),
           \<lparr>requested = [''http://user.example/'', ''http://user.example/xrds''],
            opened = [\<lparr>stream = 0, ReadAll = Inr []\<rparr>,
                      \<lparr>stream = 1, ReadAll = Inr xrds_document\<rparr>],
            closed = [\<lparr>stream = 1, ReadAll = Inr xrds_document\<rparr>]\<rparr>)"
  by (simp add: RedirectURI_def RedirectURI_identifier_def HasPrefix_def
        xri_global_context_symbol_def Let_def discover.simps world_examples
        getIdentifiers_def getIdentifiers_service_def RedirectURI_url_def ContainsRune_def
        Encode_def sort_Strings_def shouldEscape_def hexdigit_def xrds_document_def)

end
